theory Spec2Isabelle
  imports Complex_Main "HOL-Library.Char_ord" "HOL-Library.List_Lexorder"
    "HOL-Library.Sublist" "HOL-Library.Multiset"
begin

section \<open>Strings as the Go code uses them\<close>

text \<open>
  A Go string is a sequence of bytes; the model uses \<open>string\<close> (a list of \<open>char\<close>, one per
  byte). Go compares strings bytewise, which is the lexicographic order on lists over the
  order of \<open>char\<close> by code. The helpers of package \<open>strings\<close> are modelled on ASCII:
  \<open>TrimSpace\<close> removes tab, line feed, vertical tab, form feed, carriage return and space
  from both ends, \<open>ToLower\<close> maps \<open>A..Z\<close> to \<open>a..z\<close> and leaves every other byte.
\<close>

definition isSpace :: "char \<Rightarrow> bool" where
  "isSpace c = (c = CHR 0x09 \<or> c = CHR 0x0A \<or> c = CHR 0x0B \<or> c = CHR 0x0C \<or> c = CHR 0x0D
     \<or> c = CHR '' '')"

definition TrimSpace :: "string \<Rightarrow> string" where
  "TrimSpace s = rev (dropWhile isSpace (rev (dropWhile isSpace s)))"

text \<open>
  Go adds \<open>'a' - 'A'\<close> (32) to a byte in \<open>A..Z\<close>; bit 5 of such a byte is clear, so the
  addition sets that bit.
\<close>

definition lowerChar :: "char \<Rightarrow> char" where
  "lowerChar c =
     (if CHR ''A'' \<le> c \<and> c \<le> CHR ''Z''
      then (case c of Char b0 b1 b2 b3 b4 b5 b6 b7 \<Rightarrow> Char b0 b1 b2 b3 b4 True b6 b7)
      else c)"

definition ToLower :: "string \<Rightarrow> string" where
  "ToLower s = map lowerChar s"

definition TrimPrefix :: "string \<Rightarrow> string \<Rightarrow> string" where
  "TrimPrefix s p = (if prefix p s then drop (length p) s else s)"

fun Contains :: "string \<Rightarrow> string \<Rightarrow> bool" where
  "Contains [] sub = (sub = [])"
| "Contains (c # cs) sub = (prefix sub (c # cs) \<or> Contains cs sub)"

section \<open>Percentile of the lag samples\<close>

text \<open>
  \<open>percentileInt64\<close> of the source. The samples are int64 values that are only selected,
  never combined, so they are integers here. The rank is computed by the source as
  \<open>int(float64(len-1) * float64(p) / 100.0)\<close>: the product is an integer far below
  \<open>2^53\<close> for any slice that fits in memory, so it is exact, the quotient by 100 is either
  an integer or at least 1/100 away from one, and the conversion to \<open>int\<close> truncates;
  the model computes the same number over the reals.
\<close>

definition goInt :: "real \<Rightarrow> int" where
  "goInt r = (if 0 \<le> r then \<lfloor>r\<rfloor> else \<lceil>r\<rceil>)"

definition percentileInt64 :: "int list \<Rightarrow> int \<Rightarrow> int" where
  "percentileInt64 samples p =
     (if length samples = 0 then 0
      else if p \<le> 0 then samples ! 0
      else if p \<ge> 100 then samples ! (length samples - 1)
      else
        let rank = goInt (real_of_int (int (length samples) - 1) * real_of_int p / 100);
            rank = (if rank < 0 then 0 else rank);
            rank = (if rank \<ge> int (length samples) then int (length samples) - 1 else rank)
        in samples ! nat rank)"

section \<open>Limits of the two scans\<close>

text \<open>
  The first statements of \<open>ListAIPs\<close> and of \<open>AIPStats\<close> replace the requested limit
  and page size; the two definitions are those statements, named so that the scans below
  and the theorems can refer to the value that is used.
\<close>

definition listLimit :: "int \<Rightarrow> int" where
  "listLimit limit =
     (let limit = (if limit \<le> 0 then 100 else limit);
          limit = (if limit > 500 then 500 else limit)
      in limit)"

definition statsPageSize :: "int \<Rightarrow> int" where
  "statsPageSize pageSize =
     (let pageSize = (if pageSize \<le> 0 then 500 else pageSize);
          pageSize = (if pageSize > 2000 then 2000 else pageSize)
      in pageSize)"

section \<open>Extension against format\<close>

definition addExpected :: "string set \<Rightarrow> string list \<Rightarrow> string set" where
  "addExpected expected values =
     fold (\<lambda>v e. let v = TrimPrefix (ToLower (TrimSpace v)) ''.''
                  in if v \<noteq> [] then insert v e else e) values expected"

definition expectedByKey :: "string \<Rightarrow> string set" where
  "expectedByKey key =
     (if key = ''fmt/353'' then addExpected {} [''tif'', ''tiff'']
      else if key = ''fmt/11'' then addExpected {} [''png'']
      else if key = ''fmt/4'' then addExpected {} [''gif'']
      else if key = ''fmt/91'' then addExpected {} [''svg'']
      else if key = ''fmt/43'' then addExpected {} [''jpg'', ''jpeg'']
      else if key = ''fmt/402'' then addExpected {} [''tga'']
      else if key = ''x-fmt/392'' then addExpected {} [''jp2'', ''j2k'', ''jpf'']
      else {})"

definition expectedByName :: "string \<Rightarrow> string set" where
  "expectedByName name =
     (if Contains name ''portable network graphics'' then addExpected {} [''png'']
      else if Contains name ''graphics interchange format'' then addExpected {} [''gif'']
      else if Contains name ''scalable vector graphics'' then addExpected {} [''svg'']
      else if Contains name ''jpeg'' then addExpected {} [''jpg'', ''jpeg'']
      else if Contains name ''tiff'' then addExpected {} [''tif'', ''tiff'']
      else {})"

definition mismatchByFormat :: "string \<Rightarrow> string \<Rightarrow> string \<Rightarrow> bool" where
  "mismatchByFormat regKey formatName ext =
     (let ext = TrimPrefix (ToLower (TrimSpace ext)) ''.''
      in if ext = [] then False
         else
           let key = ToLower (TrimSpace regKey);
               name = ToLower (TrimSpace formatName);
               expected = expectedByKey key;
               expected = (if expected = {} then expectedByName name else expected)
           in if expected = {} then False else ext \<notin> expected)"



section \<open>Values decoded from JSON\<close>

text \<open>
  What \<open>encoding/json\<close> stores in an \<open>any\<close>: nil, bool, float64, string, \<open>[]any\<close> and
  \<open>map[string]any\<close>. A float64 is a real number here; \<open>strconv\<close>'s printing and parsing of
  floats (\<open>FormatFloat\<close>, \<open>ParseFloat\<close>) are parameters \<open>ff\<close> and \<open>pf\<close> of the functions
  that use them. A map is an association list with distinct keys; nil and empty slices are
  both the empty list, as the code only takes their \<open>len\<close>.
\<close>

datatype jany = JNull | JBool bool | JNum real | JStr string | JArr "jany list"
  | JObj "(string \<times> jany) list"

definition mapIndex :: "(string \<times> jany) list \<Rightarrow> string \<Rightarrow> jany" where
  "mapIndex m k = (case map_of m k of None \<Rightarrow> JNull | Some v \<Rightarrow> v)"

definition asString :: "jany \<Rightarrow> string" where
  "asString v = (case v of JStr s \<Rightarrow> s | _ \<Rightarrow> [])"

definition asMap :: "jany \<Rightarrow> (string \<times> jany) list" where
  "asMap v = (case v of JObj m \<Rightarrow> m | _ \<Rightarrow> [])"

definition asSlice :: "jany \<Rightarrow> jany list" where
  "asSlice v = (case v of JArr t \<Rightarrow> t | JObj t \<Rightarrow> [JObj t] | _ \<Rightarrow> [])"

definition asFloat :: "(string \<Rightarrow> real option) \<Rightarrow> jany \<Rightarrow> real" where
  "asFloat pf v =
     (case v of
        JNum x \<Rightarrow> x
      | JStr x \<Rightarrow>
          (let s = TrimSpace x
           in if s = [] then 0 else (case pf s of None \<Rightarrow> 0 | Some f \<Rightarrow> f))
      | _ \<Rightarrow> 0)"

section \<open>UTF-8 as package \<open>unicode/utf8\<close> reads and writes it\<close>

definition inRange :: "char \<Rightarrow> char \<Rightarrow> char \<Rightarrow> bool" where
  "inRange c lo hi = (lo \<le> c \<and> c \<le> hi)"

text \<open>
  The length of the well-formed encoding at the head of a string, \<open>None\<close> where
  \<open>utf8.DecodeRune\<close> returns \<open>RuneError\<close> with width 1.
\<close>

fun runeLen :: "string \<Rightarrow> nat option" where
  "runeLen [] = None"
| "runeLen (a # bs) =
     (if a < CHR 0x80 then Some 1
      else if inRange a (CHR 0xC2) (CHR 0xDF) then
        (case bs of
           b # _ \<Rightarrow> if inRange b (CHR 0x80) (CHR 0xBF) then Some 2 else None
         | _ \<Rightarrow> None)
      else if inRange a (CHR 0xE0) (CHR 0xEF) then
        (case bs of
           b # c # _ \<Rightarrow>
             if inRange b (if a = CHR 0xE0 then CHR 0xA0 else CHR 0x80)
                  (if a = CHR 0xED then CHR 0x9F else CHR 0xBF)
                \<and> inRange c (CHR 0x80) (CHR 0xBF)
             then Some 3 else None
         | _ \<Rightarrow> None)
      else if inRange a (CHR 0xF0) (CHR 0xF4) then
        (case bs of
           b # c # d # _ \<Rightarrow>
             if inRange b (if a = CHR 0xF0 then CHR 0x90 else CHR 0x80)
                  (if a = CHR 0xF4 then CHR 0x8F else CHR 0xBF)
                \<and> inRange c (CHR 0x80) (CHR 0xBF) \<and> inRange d (CHR 0x80) (CHR 0xBF)
             then Some 4 else None
         | _ \<Rightarrow> None)
      else None)"

fun validUTF8 :: "string \<Rightarrow> bool" where
  "validUTF8 [] = True"
| "validUTF8 (a # bs) =
     (case runeLen (a # bs) of None \<Rightarrow> False | Some n \<Rightarrow> validUTF8 (drop (n - 1) bs))"

text \<open>\<open>utf8.EncodeRune\<close> of a code point that is not a surrogate and at most \<open>0x10FFFF\<close>.\<close>

definition EncodeRune :: "nat \<Rightarrow> string" where
  "EncodeRune r =
     (if r < 0x80 then [char_of r]
      else if r < 0x800 then [char_of (0xC0 + r div 64), char_of (0x80 + r mod 64)]
      else if r < 0x10000 then
        [char_of (0xE0 + r div 4096), char_of (0x80 + r div 64 mod 64), char_of (0x80 + r mod 64)]
      else
        [char_of (0xF0 + r div 262144), char_of (0x80 + r div 4096 mod 64),
         char_of (0x80 + r div 64 mod 64), char_of (0x80 + r mod 64)])"

definition replacementChar :: string where
  "replacementChar = [CHR 0xEF, CHR 0xBF, CHR 0xBD]"

section \<open>JSON strings\<close>

definition hexDigit :: "nat \<Rightarrow> char" where
  "hexDigit n = ''0123456789abcdef'' ! n"

definition hexVal :: "char \<Rightarrow> nat option" where
  "hexVal c =
     (if inRange c CHR ''0'' CHR ''9'' then Some (of_char c - 48)
      else if inRange c CHR ''a'' CHR ''f'' then Some (of_char c - 87)
      else if inRange c CHR ''A'' CHR ''F'' then Some (of_char c - 55)
      else None)"

text \<open>
  The encoder's string escaping with HTML escaping on, as \<open>json.Marshal\<close> has it: the
  quote and the backslash are escaped, control characters and \<open><\<close>, \<open>>\<close>, \<open>&\<close> are
  written as \<open>\u00XX\<close> (or a short escape), an ill-formed byte becomes \<open>\ufffd\<close>, and the
  line and paragraph separators U+2028 and U+2029 are written as escapes.
\<close>

definition escapeByte :: "char \<Rightarrow> string" where
  "escapeByte c =
     (if c = CHR 0x22 \<or> c = CHR 0x5C then [CHR 0x5C, c]
      else if c = CHR 0x08 then [CHR 0x5C, CHR ''b'']
      else if c = CHR 0x0C then [CHR 0x5C, CHR ''f'']
      else if c = CHR 0x0A then [CHR 0x5C, CHR ''n'']
      else if c = CHR 0x0D then [CHR 0x5C, CHR ''r'']
      else if c = CHR 0x09 then [CHR 0x5C, CHR ''t'']
      else if c < CHR 0x20 \<or> c = CHR ''<'' \<or> c = CHR ''>'' \<or> c = CHR ''&'' then
        [CHR 0x5C, CHR ''u'', CHR ''0'', CHR ''0'',
         hexDigit (of_char c div 16), hexDigit (of_char c mod 16)]
      else [c])"

fun appendString :: "string \<Rightarrow> string" where
  "appendString [] = []"
| "appendString (a # bs) =
     (if a < CHR 0x80 then escapeByte a @ appendString bs
      else
        (case runeLen (a # bs) of
           None \<Rightarrow> [CHR 0x5C, CHR ''u'', CHR ''f'', CHR ''f'', CHR ''f'', CHR ''d''] @ appendString bs
         | Some n \<Rightarrow>
             (if take n (a # bs) = [CHR 0xE2, CHR 0x80, CHR 0xA8] then
                [CHR 0x5C, CHR ''u'', CHR ''2'', CHR ''0'', CHR ''2'', CHR ''8'']
              else if take n (a # bs) = [CHR 0xE2, CHR 0x80, CHR 0xA9] then
                [CHR 0x5C, CHR ''u'', CHR ''2'', CHR ''0'', CHR ''2'', CHR ''9'']
              else take n (a # bs))
             @ appendString (drop (n - 1) bs)))"

text \<open>Four hexadecimal digits after \<open>\u\<close> (\<open>getu4\<close>), with the rest of the input.\<close>

definition getu4 :: "string \<Rightarrow> (nat \<times> string) option" where
  "getu4 s =
     (case s of
        a # b # c # d # rest \<Rightarrow>
          (case (hexVal a, hexVal b, hexVal c, hexVal d) of
             (Some x, Some y, Some z, Some w) \<Rightarrow> Some (((x * 16 + y) * 16 + z) * 16 + w, rest)
           | _ \<Rightarrow> None)
      | _ \<Rightarrow> None)"

text \<open>
  A \<open>\uXXXX\<close> escape, read after its \<open>\u\<close>: a high surrogate followed by an escaped low
  surrogate is one code point, any other surrogate is U+FFFD.
\<close>

definition unquoteU :: "string \<Rightarrow> (string \<times> string) option" where
  "unquoteU s =
     (case getu4 s of
        None \<Rightarrow> None
      | Some (rr, rest) \<Rightarrow>
          if 0xD800 \<le> rr \<and> rr < 0xE000 then
            (case rest of
               e # u # rest1 \<Rightarrow>
                 (if e = CHR 0x5C \<and> u = CHR ''u'' then
                    (case getu4 rest1 of
                       Some (rr1, rest2) \<Rightarrow>
                         if rr < 0xDC00 \<and> 0xDC00 \<le> rr1 \<and> rr1 < 0xE000
                         then Some (EncodeRune ((rr - 0xD800) * 1024 + (rr1 - 0xDC00) + 0x10000), rest2)
                         else Some (replacementChar, rest)
                     | None \<Rightarrow> Some (replacementChar, rest))
                  else Some (replacementChar, rest))
             | _ \<Rightarrow> Some (replacementChar, rest))
          else Some (EncodeRune rr, rest))"

definition simpleEscape :: "char \<Rightarrow> char option" where
  "simpleEscape e =
     (if e = CHR 0x22 \<or> e = CHR 0x5C \<or> e = CHR ''/'' then Some e
      else if e = CHR ''b'' then Some (CHR 0x08)
      else if e = CHR ''f'' then Some (CHR 0x0C)
      else if e = CHR ''n'' then Some (CHR 0x0A)
      else if e = CHR ''r'' then Some (CHR 0x0D)
      else if e = CHR ''t'' then Some (CHR 0x09)
      else None)"

definition prepend :: "string \<Rightarrow> (string \<times> string) option \<Rightarrow> (string \<times> string) option" where
  "prepend p r = (case r of None \<Rightarrow> None | Some (s, rest) \<Rightarrow> Some (p @ s, rest))"

lemma unquoteU_shorter: "unquoteU s = Some (t, rest) \<Longrightarrow> length rest < length s"
  by (auto simp: unquoteU_def getu4_def split: list.splits option.splits if_splits prod.splits)

text \<open>
  A string literal after its opening quote: the decoded bytes and the input after the
  closing quote. A raw control character, a bad escape and a missing closing quote are
  syntax errors; an ill-formed byte is replaced by U+FFFD.
\<close>

function scanString :: "string \<Rightarrow> (string \<times> string) option" where
  "scanString [] = None"
| "scanString (c # cs) =
     (if c = CHR 0x22 then Some ([], cs)
      else if c = CHR 0x5C then
        (case cs of
           [] \<Rightarrow> None
         | e # es \<Rightarrow>
             if e = CHR ''u'' then
               (case unquoteU es of
                  None \<Rightarrow> None
                | Some (bytes, rest) \<Rightarrow> prepend bytes (scanString rest))
             else
               (case simpleEscape e of
                  None \<Rightarrow> None
                | Some ch \<Rightarrow> prepend [ch] (scanString es)))
      else if c < CHR 0x20 then None
      else if c < CHR 0x80 then prepend [c] (scanString cs)
      else
        (case runeLen (c # cs) of
           None \<Rightarrow> prepend replacementChar (scanString cs)
         | Some n \<Rightarrow> prepend (take n (c # cs)) (scanString (drop (n - 1) cs))))"
  by pat_completeness auto
termination
  by (relation "measure length") (auto dest: unquoteU_shorter)

lemma prependD: "prepend p r = Some (t, rest) \<Longrightarrow> \<exists>s. r = Some (s, rest) \<and> t = p @ s"
  by (auto simp: prepend_def split: option.splits)

lemma scanString_shorter: "scanString s = Some (t, rest) \<Longrightarrow> length rest < length s"
proof (induction s arbitrary: t rule: length_induct)
  case (1 s)
  show ?case
  proof (cases s)
    case Nil
    with "1.prems" show ?thesis by simp
  next
    case (Cons c cs)
    have step: "length rest < length s"
      if "length ys \<le> length cs" "scanString ys = Some (t', rest)" for ys t'
    proof -
      from that(1) Cons have "length ys < length s" by simp
      with "1.IH" that(2) have "length rest < length ys" by blast
      with that(1) Cons show ?thesis by simp
    qed
    from "1.prems" Cons have p: "scanString (c # cs) = Some (t, rest)" by simp
    show ?thesis
    proof (cases "c = CHR 0x22")
      case True
      with p Cons show ?thesis by simp
    next
      case nq: False
      show ?thesis
      proof (cases "c = CHR 0x5C")
        case True
        show ?thesis
        proof (cases cs)
          case Nil
          with p nq True show ?thesis by simp
        next
          case (Cons e es)
          show ?thesis
          proof (cases "e = CHR ''u''")
            case eu: True
            from p nq True Cons eu obtain bytes r1
              where u: "unquoteU es = Some (bytes, r1)"
                and q: "prepend bytes (scanString r1) = Some (t, rest)"
              by (simp split: option.splits prod.splits)
            from prependD [OF q] obtain s' where s': "scanString r1 = Some (s', rest)" by blast
            from unquoteU_shorter [OF u] Cons have "length r1 \<le> length cs" by simp
            from step [OF this s'] show ?thesis .
          next
            case False
            with p nq True Cons obtain ch
              where q: "prepend [ch] (scanString es) = Some (t, rest)"
              by (simp split: option.splits)
            from prependD [OF q] obtain s' where s': "scanString es = Some (s', rest)" by blast
            from Cons have "length es \<le> length cs" by simp
            from step [OF this s'] show ?thesis .
          qed
        qed
      next
        case nb: False
        show ?thesis
        proof (cases "c < CHR 0x20")
          case True
          with p nq nb show ?thesis by simp
        next
          case nc: False
          show ?thesis
          proof (cases "c < CHR 0x80")
            case True
            with p nq nb nc have q: "prepend [c] (scanString cs) = Some (t, rest)" by simp
            from prependD [OF q] obtain s' where s': "scanString cs = Some (s', rest)" by blast
            from step [OF _ s'] show ?thesis by simp
          next
            case False
            show ?thesis
            proof (cases "runeLen (c # cs)")
              case None
              with p nq nb nc False
              have q: "prepend replacementChar (scanString cs) = Some (t, rest)" by simp
              from prependD [OF q] obtain s' where s': "scanString cs = Some (s', rest)" by blast
              from step [OF _ s'] show ?thesis by simp
            next
              case (Some n)
              with p nq nb nc False
              have q: "prepend (take n (c # cs)) (scanString (drop (n - 1) cs)) = Some (t, rest)"
                by simp
              from prependD [OF q] obtain s'
                where s': "scanString (drop (n - 1) cs) = Some (s', rest)" by blast
              from step [OF _ s'] show ?thesis by simp
            qed
          qed
        qed
      qed
    qed
  qed
qed

section \<open>Base64, URL-safe alphabet, no padding\<close>

text \<open>
  \<open>base64.RawURLEncoding\<close>. Encoding writes four characters for three bytes and two or
  three characters for a last group of one or two bytes. Decoding ignores carriage returns
  and line feeds, rejects any other character outside the alphabet (the padding character
  too), rejects a last group of one character, and does not check the unused low bits of a
  last group.
\<close>

definition encodeURL :: string where
  "encodeURL = ''ABCDEFGHIJKLMNOPQRSTUVWXYZabcdefghijklmnopqrstuvwxyz0123456789-_''"

definition b64char :: "nat \<Rightarrow> char" where
  "b64char n = encodeURL ! n"

fun indexOf :: "'a \<Rightarrow> 'a list \<Rightarrow> nat option" where
  "indexOf x [] = None"
| "indexOf x (y # ys) = (if x = y then Some 0 else map_option Suc (indexOf x ys))"

definition b64val :: "char \<Rightarrow> nat option" where
  "b64val c = indexOf c encodeURL"

fun EncodeToString :: "string \<Rightarrow> string" where
  "EncodeToString [] = []"
| "EncodeToString [a] =
     (let x = of_char a in [b64char (x div 4), b64char (x mod 4 * 16)])"
| "EncodeToString [a, b] =
     (let x = of_char a; y = of_char b
      in [b64char (x div 4), b64char (x mod 4 * 16 + y div 16), b64char (y mod 16 * 4)])"
| "EncodeToString (a # b # c # rest) =
     (let x = of_char a; y = of_char b; z = of_char c
      in [b64char (x div 4), b64char (x mod 4 * 16 + y div 16),
          b64char (y mod 16 * 4 + z div 64), b64char (z mod 64)]
         @ EncodeToString rest)"

fun decodeQuanta :: "nat list \<Rightarrow> string option" where
  "decodeQuanta [] = Some []"
| "decodeQuanta [a] = None"
| "decodeQuanta [a, b] = Some [char_of (a * 4 + b div 16)]"
| "decodeQuanta [a, b, c] =
     Some [char_of (a * 4 + b div 16), char_of (b mod 16 * 16 + c div 4)]"
| "decodeQuanta (a # b # c # d # rest) =
     (case decodeQuanta rest of
        None \<Rightarrow> None
      | Some bytes \<Rightarrow>
          Some ([char_of (a * 4 + b div 16), char_of (b mod 16 * 16 + c div 4),
                 char_of (c mod 4 * 64 + d)] @ bytes))"

fun sextets :: "string \<Rightarrow> nat list option" where
  "sextets [] = Some []"
| "sextets (c # cs) =
     (case b64val c of
        None \<Rightarrow> None
      | Some v \<Rightarrow> (case sextets cs of None \<Rightarrow> None | Some vs \<Rightarrow> Some (v # vs)))"

definition DecodeString :: "string \<Rightarrow> string option" where
  "DecodeString s =
     (case sextets (filter (\<lambda>c. c \<noteq> CHR 0x0D \<and> c \<noteq> CHR 0x0A) s) of
        None \<Rightarrow> None
      | Some vs \<Rightarrow> decodeQuanta vs)"

section \<open>JSON texts\<close>

text \<open>
  \<open>json.Marshal\<close> of a decoded value: no white space, the keys of a map in ascending
  order, a float64 as \<open>strconv\<close> prints it (the parameter \<open>ff\<close>).
\<close>

definition quote :: "string \<Rightarrow> string" where
  "quote s = [CHR 0x22] @ appendString s @ [CHR 0x22]"

fun joinComma :: "string list \<Rightarrow> string" where
  "joinComma [] = []"
| "joinComma [x] = x"
| "joinComma (x # y # ys) = x @ '','' @ joinComma (y # ys)"

fun marshal :: "(real \<Rightarrow> string) \<Rightarrow> jany \<Rightarrow> string" where
  "marshal ff JNull = ''null''"
| "marshal ff (JBool b) = (if b then ''true'' else ''false'')"
| "marshal ff (JNum x) = ff x"
| "marshal ff (JStr s) = quote s"
| "marshal ff (JArr xs) = ''['' @ joinComma (map (marshal ff) xs) @ '']''"
| "marshal ff (JObj kvs) =
     ''{'' @ joinComma (map (\<lambda>(k, s). quote k @ '':'' @ s)
              (sort_key fst (map (\<lambda>(k, v). (k, marshal ff v)) kvs))) @ ''}''"

text \<open>
  The number grammar of JSON: an optional minus, \<open>0\<close> or a digit run not starting with
  \<open>0\<close>, an optional fraction, an optional exponent.
\<close>

definition isDigit :: "char \<Rightarrow> bool" where
  "isDigit c = inRange c CHR ''0'' CHR ''9''"

definition numChar :: "char \<Rightarrow> bool" where
  "numChar c = (isDigit c \<or> c = CHR ''-'' \<or> c = CHR ''+'' \<or> c = CHR ''.'' \<or> c = CHR ''e''
     \<or> c = CHR ''E'')"

definition expPart :: "string \<Rightarrow> bool" where
  "expPart r =
     (case r of
        [] \<Rightarrow> True
      | e # x \<Rightarrow>
          (e = CHR ''e'' \<or> e = CHR ''E'')
          \<and> (let x1 = (case x of
                          [] \<Rightarrow> []
                        | s # y \<Rightarrow> if s = CHR ''+'' \<or> s = CHR ''-'' then y else x)
             in x1 \<noteq> [] \<and> list_all isDigit x1))"

definition fracExp :: "string \<Rightarrow> bool" where
  "fracExp r =
     (case r of
        [] \<Rightarrow> True
      | p # f \<Rightarrow>
          if p = CHR ''.'' then
            (case f of [] \<Rightarrow> False | d # _ \<Rightarrow> isDigit d \<and> expPart (dropWhile isDigit f))
          else expPart r)"

definition isJSONNumber :: "string \<Rightarrow> bool" where
  "isJSONNumber s =
     (let s1 = (case s of [] \<Rightarrow> [] | m # r \<Rightarrow> if m = CHR ''-'' then r else s)
      in case s1 of
           [] \<Rightarrow> False
         | d # r \<Rightarrow>
             if d = CHR ''0'' then fracExp r
             else if inRange d CHR ''1'' CHR ''9'' then fracExp (dropWhile isDigit r)
             else False)"

text \<open>
  The scanner of \<open>encoding/json\<close>, in two passes that accept the same texts: the text is
  cut into tokens, and the tokens are checked against the grammar with a stack of open
  arrays and objects, at most 10000 deep. A number is the longest run of number
  characters, which must follow the number grammar and be accepted by \<open>strconv\<close>
  (the parameter \<open>pf\<close>; a literal outside the float64 range is refused).
\<close>

datatype token = TLBrack | TRBrack | TLBrace | TRBrace | TComma | TColon | TVal jany

definition consTok :: "token \<Rightarrow> token list option \<Rightarrow> token list option" where
  "consTok t r = (case r of None \<Rightarrow> None | Some ts \<Rightarrow> Some (t # ts))"

function lex :: "(string \<Rightarrow> real option) \<Rightarrow> string \<Rightarrow> token list option" where
  "lex pf [] = Some []"
| "lex pf (c # cs) =
     (if c = CHR '' '' \<or> c = CHR 0x09 \<or> c = CHR 0x0D \<or> c = CHR 0x0A then lex pf cs
      else if c = CHR ''['' then consTok TLBrack (lex pf cs)
      else if c = CHR '']'' then consTok TRBrack (lex pf cs)
      else if c = CHR ''{'' then consTok TLBrace (lex pf cs)
      else if c = CHR ''}'' then consTok TRBrace (lex pf cs)
      else if c = CHR '','' then consTok TComma (lex pf cs)
      else if c = CHR '':'' then consTok TColon (lex pf cs)
      else if c = CHR 0x22 then
        (case scanString cs of
           None \<Rightarrow> None
         | Some (s, rest) \<Rightarrow> consTok (TVal (JStr s)) (lex pf rest))
      else if c = CHR ''t'' then
        (if take 3 cs = ''rue'' then consTok (TVal (JBool True)) (lex pf (drop 3 cs)) else None)
      else if c = CHR ''f'' then
        (if take 4 cs = ''alse'' then consTok (TVal (JBool False)) (lex pf (drop 4 cs)) else None)
      else if c = CHR ''n'' then
        (if take 3 cs = ''ull'' then consTok (TVal JNull) (lex pf (drop 3 cs)) else None)
      else if c = CHR ''-'' \<or> isDigit c then
        (if isJSONNumber (c # takeWhile numChar cs) then
           (case pf (c # takeWhile numChar cs) of
              None \<Rightarrow> None
            | Some x \<Rightarrow> consTok (TVal (JNum x)) (lex pf (dropWhile numChar cs)))
         else None)
      else None)"
  by pat_completeness auto
termination
proof (relation "measure (\<lambda>(pf, s). length s)", goal_cases)
  case (9 pf c cs x2 x y)
  then show ?case using scanString_shorter [of cs x y] by simp
next
  case (13 pf c cs x2)
  then show ?case by (simp add: le_imp_less_Suc length_dropWhile_le)
qed simp_all

datatype frame = FArr "jany list" | FObj "(string \<times> jany) list"
  | FKey "(string \<times> jany) list" string

datatype pstate = PValue | PValueOrClose | PKeyOrClose | PKey | PColon | PEnd | PDone jany

definition maxNestingDepth :: nat where
  "maxNestingDepth = 10000"

text \<open>Storing under a key of a map replaces what the key had.\<close>

definition setKey :: "(string \<times> jany) list \<Rightarrow> string \<Rightarrow> jany \<Rightarrow> (string \<times> jany) list" where
  "setKey kvs k v = filter (\<lambda>kv. fst kv \<noteq> k) kvs @ [(k, v)]"

fun pushValue :: "jany \<Rightarrow> frame list \<Rightarrow> (pstate \<times> frame list) option" where
  "pushValue v [] = Some (PDone v, [])"
| "pushValue v (FArr xs # st) = Some (PEnd, FArr (xs @ [v]) # st)"
| "pushValue v (FKey kvs k # st) = Some (PEnd, FObj (setKey kvs k v) # st)"
| "pushValue v (FObj kvs # st) = None"

fun beginValue :: "frame list \<Rightarrow> token \<Rightarrow> (pstate \<times> frame list) option" where
  "beginValue st (TVal v) = pushValue v st"
| "beginValue st TLBrack =
     (if length st < maxNestingDepth then Some (PValueOrClose, FArr [] # st) else None)"
| "beginValue st TLBrace =
     (if length st < maxNestingDepth then Some (PKeyOrClose, FObj [] # st) else None)"
| "beginValue st _ = None"

fun beginKey :: "frame list \<Rightarrow> token \<Rightarrow> (pstate \<times> frame list) option" where
  "beginKey (FObj kvs # st) (TVal (JStr k)) = Some (PColon, FKey kvs k # st)"
| "beginKey _ _ = None"

fun closeTop :: "frame list \<Rightarrow> token \<Rightarrow> (pstate \<times> frame list) option" where
  "closeTop (FArr xs # st) TRBrack = pushValue (JArr xs) st"
| "closeTop (FObj kvs # st) TRBrace = pushValue (JObj kvs) st"
| "closeTop _ _ = None"

fun step :: "pstate \<times> frame list \<Rightarrow> token \<Rightarrow> (pstate \<times> frame list) option" where
  "step (PValue, st) tok = beginValue st tok"
| "step (PValueOrClose, st) tok =
     (if tok = TRBrack then closeTop st tok else beginValue st tok)"
| "step (PKeyOrClose, st) tok =
     (if tok = TRBrace then closeTop st tok else beginKey st tok)"
| "step (PKey, st) tok = beginKey st tok"
| "step (PColon, st) tok = (if tok = TColon then Some (PValue, st) else None)"
| "step (PEnd, st) tok =
     (if tok = TComma then
        (case st of
           FArr xs # _ \<Rightarrow> Some (PValue, st)
         | FObj kvs # _ \<Rightarrow> Some (PKey, st)
         | _ \<Rightarrow> None)
      else closeTop st tok)"
| "step (PDone v, st) tok = None"

fun run :: "pstate \<times> frame list \<Rightarrow> token list \<Rightarrow> (pstate \<times> frame list) option" where
  "run s [] = Some s"
| "run s (t # ts) = (case step s t of None \<Rightarrow> None | Some s' \<Rightarrow> run s' ts)"

definition parseJSON :: "(string \<Rightarrow> real option) \<Rightarrow> string \<Rightarrow> jany option" where
  "parseJSON pf blob =
     (case lex pf blob of
        None \<Rightarrow> None
      | Some toks \<Rightarrow>
          (case run (PValue, []) toks of
             Some (PDone v, _) \<Rightarrow> Some v
           | _ \<Rightarrow> None))"

text \<open>
  \<open>json.Unmarshal(blob, &out)\<close> for \<open>out\<close> a nil \<open>[]any\<close>: the text \<open>null\<close> leaves
  \<open>out\<close> nil without an error, an array fills it, and any other value is a type error.
\<close>

definition unmarshalSlice :: "(string \<Rightarrow> real option) \<Rightarrow> string \<Rightarrow> jany list option" where
  "unmarshalSlice pf blob =
     (case parseJSON pf blob of
        None \<Rightarrow> None
      | Some v \<Rightarrow> (case v of JNull \<Rightarrow> Some [] | JArr xs \<Rightarrow> Some xs | _ \<Rightarrow> None))"

section \<open>The cursor codec\<close>

datatype error = InvalidCursor | InvalidCursorPayload | AIPUUIDRequired | SearchError string

definition decodeCursor :: "(string \<Rightarrow> real option) \<Rightarrow> string \<Rightarrow> error + jany list" where
  "decodeCursor pf cursor =
     (let cursor = TrimSpace cursor
      in if cursor = [] then Inr []
         else
           (case DecodeString cursor of
              None \<Rightarrow> Inl InvalidCursor
            | Some blob \<Rightarrow>
                (case unmarshalSlice pf blob of
                   None \<Rightarrow> Inl InvalidCursorPayload
                 | Some out \<Rightarrow> Inr out)))"

text \<open>\<open>json.Marshal\<close> cannot fail on decoded values, so the error result is left out.\<close>

definition encodeCursor :: "(real \<Rightarrow> string) \<Rightarrow> jany list \<Rightarrow> string" where
  "encodeCursor ff sortVals = EncodeToString (marshal ff (JArr sortVals))"

section \<open>The search index\<close>

text \<open>
  One hit of a search response, and the body of a search request as far as the two scans
  vary it: the page size, the \<open>search_after\<close> values (left out of the request when there
  are none) and the artifact id of the query (none for the listing). The index answers
  through the parameter \<open>search\<close>, given the index name, the number of the call within
  the scan and the body; any response and any failure is possible at each call. Each scan
  returns, next to its result, the trace of the calls it made with their responses.
\<close>

record searchHit =
  ID :: string
  Sort :: "jany list"
  Source :: "(string \<times> jany) list"

record searchBody =
  reqSize :: int
  reqSearchAfter :: "jany list"
  reqQuery :: "string option"

type_synonym searcher = "string \<Rightarrow> nat \<Rightarrow> searchBody \<Rightarrow> error + searchHit list"

type_synonym calls = "(searchBody \<times> (error + searchHit list)) list"

definition hitsOf :: "calls \<Rightarrow> searchHit list" where
  "hitsOf trace = concat (map (\<lambda>c. case snd c of Inl e \<Rightarrow> [] | Inr hits \<Rightarrow> hits) trace)"

section \<open>Listing mode\<close>

record AIPListItem =
  AIPUUID :: string
  SIPName :: string

record AIPListResult =
  Items :: "AIPListItem list"
  NextCursor :: string

text \<open>
  The loop over the hits of one page: a hit without an artifact id or with one already
  seen is skipped, and the loop is left as soon as \<open>limit\<close> items are collected.
\<close>

fun collectHits ::
  "int \<Rightarrow> searchHit list \<Rightarrow> AIPListItem list \<times> string set \<Rightarrow> AIPListItem list \<times> string set"
where
  "collectHits limit [] (items, seen) = (items, seen)"
| "collectHits limit (h # hs) (items, seen) =
     (let aip = TrimSpace (asString (mapIndex (Source h) ''AIPUUID''))
      in if aip = [] then collectHits limit hs (items, seen)
         else if aip \<in> seen then collectHits limit hs (items, seen)
         else
           let seen = insert aip seen;
               items = items @ [\<lparr>AIPUUID = aip,
                                 SIPName = TrimSpace (asString (mapIndex (Source h) ''sipName''))\<rparr>]
           in if int (length items) \<ge> limit then (items, seen)
              else collectHits limit hs (items, seen))"

text \<open>
  The loop over the pages, at most 10 and while fewer than \<open>limit\<close> items are collected.
  It returns the items and \<open>nextSort\<close>.
\<close>

function listLoop ::
  "searcher \<Rightarrow> string \<Rightarrow> int \<Rightarrow> nat \<Rightarrow> jany list \<Rightarrow> AIPListItem list \<times> string set \<Rightarrow> jany list
     \<Rightarrow> calls \<Rightarrow> calls \<times> (error + AIPListItem list \<times> jany list)"
where
  "listLoop search index limit page searchAfter (items, seen) nextSort trace =
     (if page < 10 \<and> int (length items) < limit then
        let body = \<lparr>reqSize = limit * 3, reqSearchAfter = searchAfter, reqQuery = None\<rparr>
        in case search index page body of
             Inl err \<Rightarrow> (trace @ [(body, Inl err)], Inl err)
           | Inr hits \<Rightarrow>
               if length hits = 0 then (trace @ [(body, Inr hits)], Inr (items, []))
               else
                 let collected = collectHits limit hits (items, seen);
                     nextSort = Sort (last hits)
                 in if length nextSort = 0
                    then (trace @ [(body, Inr hits)], Inr (fst collected, nextSort))
                    else listLoop search index limit (Suc page) nextSort collected nextSort
                           (trace @ [(body, Inr hits)])
      else (trace, Inr (items, nextSort)))"
  by pat_completeness auto
termination
  by (relation "measure (\<lambda>(search, index, limit, page, rest). 10 - page)") auto

definition ListAIPs ::
  "bool \<Rightarrow> searcher \<Rightarrow> (string \<Rightarrow> real option) \<Rightarrow> (real \<Rightarrow> string)
     \<Rightarrow> string \<Rightarrow> int \<Rightarrow> string \<Rightarrow> calls \<times> (error + AIPListResult option)"
where
  "ListAIPs enabled search pf ff index limit cursor =
     (if \<not> enabled then ([], Inr None)
      else
        let index = (if TrimSpace index = [] then ''aipfiles'' else index);
            limit = listLimit limit
        in case decodeCursor pf cursor of
             Inl err \<Rightarrow> ([], Inl err)
           | Inr searchAfter \<Rightarrow>
               (case listLoop search index limit 0 searchAfter ([], {}) [] [] of
                  (trace, Inl err) \<Rightarrow> (trace, Inl err)
                | (trace, Inr (items, nextSort)) \<Rightarrow>
                    (trace, Inr (Some \<lparr>Items = items,
                                      NextCursor = (if length nextSort > 0
                                                    then encodeCursor ff nextSort else [])\<rparr>))))"

section \<open>Metadata of one hit\<close>

text \<open>
  A conversion \<open>int64(f)\<close> truncates towards zero; where the value does not fit, Go leaves
  the result to the implementation, and the model takes the smallest int64, as amd64 does.
  An int64 sum wraps around.
\<close>

definition int64 :: "real \<Rightarrow> int" where
  "int64 f = (let t = goInt f in if - (2 ^ 63) \<le> t \<and> t < 2 ^ 63 then t else - (2 ^ 63))"

definition wrap64 :: "int \<Rightarrow> int" where
  "wrap64 x = (x + 2 ^ 63) mod 2 ^ 64 - 2 ^ 63"

fun afterLast :: "char \<Rightarrow> string \<Rightarrow> string option" where
  "afterLast c [] = None"
| "afterLast c (x # xs) =
     (case afterLast c xs of
        Some r \<Rightarrow> Some r
      | None \<Rightarrow> if x = c then Some xs else None)"

definition extFromPath :: "string \<Rightarrow> string" where
  "extFromPath path =
     (let path = TrimSpace path
      in if path = [] then ''unknown''
         else
           let name = path;
               name = (case afterLast CHR ''/'' name of Some r \<Rightarrow> r | None \<Rightarrow> name);
               name = (case afterLast (CHR 0x5C) name of Some r \<Rightarrow> r | None \<Rightarrow> name)
           in case afterLast CHR ''.'' name of
                Some r \<Rightarrow> if r \<noteq> [] then ToLower (TrimSpace r) else ''unknown''
              | None \<Rightarrow> ''unknown'')"

definition countAnyItems :: "jany \<Rightarrow> nat" where
  "countAnyItems v =
     (case v of
        JArr t \<Rightarrow> length t
      | JObj t \<Rightarrow> length t
      | JStr t \<Rightarrow> if TrimSpace t = [] then 0 else 1
      | _ \<Rightarrow> 0)"

definition premisObject :: "(string \<times> jany) list \<Rightarrow> (string \<times> jany) list" where
  "premisObject rootMap =
     (let amd = asMap (mapIndex rootMap ''amdSec'');
          amdDict = asMap (mapIndex amd ''mets:amdSec_dict'');
          tech = asMap (mapIndex amdDict ''mets:techMD_dict'');
          wrap = asMap (mapIndex tech ''mets:mdWrap_dict'');
          xmlData = asMap (mapIndex wrap ''mets:xmlData_dict'')
      in asMap (mapIndex xmlData ''premis:object_dict''))"

text \<open>
  \<open>extractNormalizedObjectIDs\<close>: the distinct, non-empty related-object identifiers of
  the relationship entry (one object or a list of objects), sorted.
\<close>

definition extractNormalizedObjectIDs :: "jany \<Rightarrow> string list" where
  "extractNormalizedObjectIDs mets =
     (case mets of
        JObj rootMap \<Rightarrow>
          (let obj = premisObject rootMap;
               rel = mapIndex obj ''premis:relationship_dict'';
               ids = fold (\<lambda>item ids.
                       let rm = asMap item;
                           idDict = asMap (mapIndex rm ''premis:relatedObjectIdentifier_dict'');
                           relID = TrimSpace (asString
                                  (mapIndex idDict ''premis:relatedObjectIdentifierValue''))
                       in if relID \<noteq> [] then insert relID ids else ids) (asSlice rel) {}
           in sorted_list_of_set ids)
      | _ \<Rightarrow> [])"

text \<open>
  \<open>extractObjectMeta\<close>, for the size and the format identity; the created-by-application
  date and the provenance events it also returns feed only into fields that are not
  modelled here.
\<close>

definition extractObjectMeta ::
  "(string \<Rightarrow> real option) \<Rightarrow> jany \<Rightarrow> int \<times> string \<times> string \<times> string" where
  "extractObjectMeta pf mets =
     (case mets of
        JObj rootMap \<Rightarrow>
          (let obj = premisObject rootMap;
               objChar = asMap (mapIndex obj ''premis:objectCharacteristics_dict'');
               sz = int64 (asFloat pf (mapIndex objChar ''premis:size''));
               format = asMap (mapIndex objChar ''premis:format_dict'');
               designation = asMap (mapIndex format ''premis:formatDesignation_dict'');
               registry = asMap (mapIndex format ''premis:formatRegistry_dict'');
               formatName = TrimSpace (asString (mapIndex designation ''premis:formatName''));
               formatVersion = TrimSpace (asString (mapIndex designation ''premis:formatVersion''));
               regKey = TrimSpace (asString (mapIndex registry ''premis:formatRegistryKey''))
           in (sz, regKey, formatName, formatVersion))
      | _ \<Rightarrow> (0, [], [], []))"

section \<open>Full-scan mode\<close>

text \<open>
  The sample kept for a large file (its two date strings are left out) and the part of
  \<open>AIPStats\<close> that the file count, the normalization counters, the sizes, the format
  signatures, the quality counters and the largest files make up. The frequency tables,
  the date ranges, the lag samples and the duplicate file names are accumulated
  independently of these fields and are left out.
\<close>

record AIPFileSample =
  FilePath :: string
  FileUUID :: string
  Bytes :: int
  Extension :: string
  FormatRegistryKey :: string
  FormatName :: string
  Status :: string

record AIPStats =
  StatsAIPUUID :: string
  FilesTotal :: int
  UniqueFileUUIDs :: int
  OriginalsWithNormalized :: int
  OriginalsWithoutNormalized :: int
  NormalizedRefsTotal :: int
  UniqueNormalizedObjectIDs :: int
  NormalizedByOriginalAvg :: real
  TotalBytes :: int
  AverageBytes :: real
  MissingIdentifiers :: int
  UnknownFormats :: int
  ExtensionFormatMismatch :: int
  UniqueFormatSignatures :: int
  FormatDiversityRatio :: real
  LargestFiles :: "AIPFileSample list"

text \<open>The local variables of \<open>AIPStats\<close> next to \<open>stats\<close>.\<close>

record scanState =
  stats :: AIPStats
  fileUUIDs :: "string set"
  normalizedIDs :: "string set"
  formatSignatureSet :: "string set"

text \<open>
  The order of \<open>largest_files\<close>: the \<open>less\<close> function handed to \<open>sort.Slice\<close>.
  \<open>sort.Slice\<close> itself is the parameter \<open>sortSlice\<close>: it is not stable, and is taken by
  its contract (a permutation in which no element is \<open>less\<close> than an earlier one).
\<close>

definition lessLargest :: "AIPFileSample \<Rightarrow> AIPFileSample \<Rightarrow> bool" where
  "lessLargest a b = (if Bytes a = Bytes b then FilePath a < FilePath b else Bytes a > Bytes b)"

definition pushLargestFile ::
  "(AIPFileSample list \<Rightarrow> AIPFileSample list) \<Rightarrow> AIPFileSample list \<Rightarrow> AIPFileSample \<Rightarrow> int
     \<Rightarrow> AIPFileSample list" where
  "pushLargestFile sortSlice dst item limit =
     (if limit \<le> 0 then dst
      else
        let dst = sortSlice (dst @ [item])
        in if int (length dst) > limit then take (nat limit) dst else dst)"

definition round2 :: "real \<Rightarrow> real" where
  "round2 v = real_of_int (int64 (v * 100 + 0.5)) / 100"

text \<open>The body of the loop over the hits of a page.\<close>

definition processHit ::
  "(string \<Rightarrow> real option) \<Rightarrow> (AIPFileSample list \<Rightarrow> AIPFileSample list)
     \<Rightarrow> scanState \<Rightarrow> searchHit \<Rightarrow> scanState" where
  "processHit pf sortSlice st h =
     (let src = Source h;
          s = stats st;
          s = s\<lparr>FilesTotal := FilesTotal s + 1\<rparr>;
          s = (if countAnyItems (mapIndex src ''identifiers'') = 0
               then s\<lparr>MissingIdentifiers := MissingIdentifiers s + 1\<rparr> else s);
          f = TrimSpace (asString (mapIndex src ''FILEUUID''));
          uuids = (if f \<noteq> [] then insert f (fileUUIDs st) else fileUUIDs st);
          ext = extFromPath (asString (mapIndex src ''filePath''));
          meta = extractObjectMeta pf (mapIndex src ''METS'');
          sz = fst meta;
          regKey = fst (snd meta);
          formatName = fst (snd (snd meta));
          formatVersion = snd (snd (snd meta));
          sz = (if sz \<le> 0 then int64 (asFloat pf (mapIndex src ''size'')) else sz);
          sz = (if sz \<le> 0 then int64 (asFloat pf (mapIndex src ''FileSize'')) else sz);
          s = (if sz > 0 then
                 s\<lparr>TotalBytes := wrap64 (TotalBytes s + sz),
                   LargestFiles := pushLargestFile sortSlice (LargestFiles s)
                     \<lparr>FilePath = TrimSpace (asString (mapIndex src ''filePath'')),
                      FileUUID = TrimSpace (asString (mapIndex src ''FILEUUID'')),
                      Bytes = sz,
                      Extension = ext,
                      FormatRegistryKey = regKey,
                      FormatName = formatName,
                      Status = TrimSpace (asString (mapIndex src ''status''))\<rparr> 10\<rparr>
               else s);
          s = (if regKey = [] \<and> formatName = []
               then s\<lparr>UnknownFormats := UnknownFormats s + 1\<rparr> else s);
          sigs = (if regKey \<noteq> [] \<or> formatName \<noteq> [] \<or> formatVersion \<noteq> []
                  then insert (TrimSpace regKey @ [CHR 0x1F] @ TrimSpace formatName @ [CHR 0x1F]
                               @ TrimSpace formatVersion) (formatSignatureSet st)
                  else formatSignatureSet st);
          rawExt = ToLower (TrimSpace (asString (mapIndex src ''fileExtension'')));
          rawExt = (if rawExt = [] then ext else rawExt);
          s = (if mismatchByFormat regKey formatName rawExt
               then s\<lparr>ExtensionFormatMismatch := ExtensionFormatMismatch s + 1\<rparr> else s);
          rels = extractNormalizedObjectIDs (mapIndex src ''METS'')
      in if length rels > 0 then
           \<lparr>stats = s\<lparr>OriginalsWithNormalized := OriginalsWithNormalized s + 1,
                       NormalizedRefsTotal := NormalizedRefsTotal s + int (length rels)\<rparr>,
            fileUUIDs = uuids,
            normalizedIDs = normalizedIDs st \<union> set rels,
            formatSignatureSet = sigs\<rparr>
         else
           \<lparr>stats = s\<lparr>OriginalsWithoutNormalized := OriginalsWithoutNormalized s + 1\<rparr>,
            fileUUIDs = uuids,
            normalizedIDs = normalizedIDs st,
            formatSignatureSet = sigs\<rparr>)"

text \<open>The loop over the pages, at most 1000.\<close>

function statsLoop ::
  "searcher \<Rightarrow> (string \<Rightarrow> real option) \<Rightarrow> (AIPFileSample list \<Rightarrow> AIPFileSample list)
     \<Rightarrow> string \<Rightarrow> string \<Rightarrow> int \<Rightarrow> nat \<Rightarrow> jany list \<Rightarrow> scanState \<Rightarrow> calls
     \<Rightarrow> calls \<times> (error + scanState)"
where
  "statsLoop search pf sortSlice index aipUUID pageSize page searchAfter st trace =
     (if page < 1000 then
        let body = \<lparr>reqSize = pageSize, reqSearchAfter = searchAfter, reqQuery = Some aipUUID\<rparr>
        in case search index page body of
             Inl err \<Rightarrow> (trace @ [(body, Inl err)], Inl err)
           | Inr hits \<Rightarrow>
               if length hits = 0 then (trace @ [(body, Inr hits)], Inr st)
               else
                 let st = foldl (processHit pf sortSlice) st hits;
                     searchAfter = Sort (last hits)
                 in if length searchAfter = 0 then (trace @ [(body, Inr hits)], Inr st)
                    else statsLoop search pf sortSlice index aipUUID pageSize (Suc page)
                           searchAfter st (trace @ [(body, Inr hits)])
      else (trace, Inr st))"
  by pat_completeness auto
termination
  by (relation "measure (\<lambda>(search, pf, sortSlice, index, aipUUID, pageSize, page, rest).
        1000 - page)") auto

text \<open>The statements after the loop that set the fields kept here.\<close>

definition finalize :: "scanState \<Rightarrow> AIPStats" where
  "finalize st =
     (let s = stats st;
          s = s\<lparr>UniqueFileUUIDs := int (card (fileUUIDs st)),
                UniqueNormalizedObjectIDs := int (card (normalizedIDs st))\<rparr>;
          s = (if FilesTotal s > 0 then
                 s\<lparr>NormalizedByOriginalAvg :=
                     round2 (real_of_int (NormalizedRefsTotal s) / real_of_int (FilesTotal s)),
                   AverageBytes :=
                     round2 (real_of_int (TotalBytes s) / real_of_int (FilesTotal s)),
                   FormatDiversityRatio :=
                     round2 (real (card (formatSignatureSet st)) / real_of_int (FilesTotal s))\<rparr>
               else s)
      in s\<lparr>UniqueFormatSignatures := int (card (formatSignatureSet st))\<rparr>)"

definition initialState :: "string \<Rightarrow> scanState" where
  "initialState aipUUID =
     \<lparr>stats = \<lparr>StatsAIPUUID = aipUUID, FilesTotal = 0, UniqueFileUUIDs = 0,
               OriginalsWithNormalized = 0, OriginalsWithoutNormalized = 0,
               NormalizedRefsTotal = 0, UniqueNormalizedObjectIDs = 0,
               NormalizedByOriginalAvg = 0, TotalBytes = 0, AverageBytes = 0,
               MissingIdentifiers = 0, UnknownFormats = 0, ExtensionFormatMismatch = 0,
               UniqueFormatSignatures = 0, FormatDiversityRatio = 0, LargestFiles = []\<rparr>,
      fileUUIDs = {}, normalizedIDs = {}, formatSignatureSet = {}\<rparr>"

definition AIPStats ::
  "bool \<Rightarrow> searcher \<Rightarrow> (string \<Rightarrow> real option) \<Rightarrow> (AIPFileSample list \<Rightarrow> AIPFileSample list)
     \<Rightarrow> string \<Rightarrow> string \<Rightarrow> int \<Rightarrow> calls \<times> (error + AIPStats option)"
where
  "AIPStats enabled search pf sortSlice index aipUUID pageSize =
     (if \<not> enabled then ([], Inr None)
      else
        let index = (if TrimSpace index = [] then ''aipfiles'' else index);
            aipUUID = TrimSpace aipUUID
        in if aipUUID = [] then ([], Inl AIPUUIDRequired)
           else
             let pageSize = statsPageSize pageSize
             in case statsLoop search pf sortSlice index aipUUID pageSize 0 []
                       (initialState aipUUID) [] of
                  (trace, Inl err) \<Rightarrow> (trace, Inl err)
                | (trace, Inr st) \<Rightarrow> (trace, Inr (Some (finalize st))))"

section \<open>Theorems\<close>

lemma goInt_nonneg: "0 \<le> r \<Longrightarrow> goInt r = \<lfloor>r\<rfloor>"
  by (simp add: goInt_def)

lemma rank_in_range:
  assumes "xs \<noteq> []" "0 < p" "p < 100"
  shows "0 \<le> real_of_int (int (length xs) - 1) * real_of_int p / 100"
    and "0 \<le> \<lfloor>real_of_int (int (length xs) - 1) * real_of_int p / 100\<rfloor>"
    and "\<lfloor>real_of_int (int (length xs) - 1) * real_of_int p / 100\<rfloor> < int (length xs)"
proof -
  define n where "n = int (length xs) - 1"
  define q where "q = real_of_int n * real_of_int p / 100"
  from assms(1) have n0: "0 \<le> n" unfolding n_def by (cases xs) simp_all
  have "0 \<le> real_of_int n * real_of_int p"
    using n0 assms(2) by (intro mult_nonneg_nonneg) simp_all
  then have q0: "0 \<le> q" unfolding q_def by simp
  have "real_of_int n * real_of_int p \<le> real_of_int n * 100"
    using n0 assms(3) by (intro mult_left_mono) simp_all
  then have "q \<le> real_of_int n" unfolding q_def by simp
  then have "\<lfloor>q\<rfloor> \<le> n" by (simp add: floor_le_iff)
  then have "\<lfloor>q\<rfloor> < int (length xs)" unfolding n_def by simp
  with q0 show "0 \<le> real_of_int (int (length xs) - 1) * real_of_int p / 100"
    and "0 \<le> \<lfloor>real_of_int (int (length xs) - 1) * real_of_int p / 100\<rfloor>"
    and "\<lfloor>real_of_int (int (length xs) - 1) * real_of_int p / 100\<rfloor> < int (length xs)"
    unfolding q_def n_def by simp_all
qed

text \<open>
  Claim C2. For every non-empty list of lag samples sorted ascending and every integer
  \<open>p\<close>, \<open>percentileInt64\<close> returns the minimum for \<open>p \<le> 0\<close>, the maximum for
  \<open>p \<ge> 100\<close>, and otherwise the element at the nearest-rank index
  \<open>floor((len - 1) * p / 100)\<close>, which lies inside the list.
\<close>

theorem percentileInt64_nearest_rank:
  assumes "s \<noteq> []" and "sorted s"
  shows "(p \<le> 0 \<longrightarrow> percentileInt64 s p = Min (set s))
       \<and> (p \<ge> 100 \<longrightarrow> percentileInt64 s p = Max (set s))
       \<and> (0 < p \<and> p < 100 \<longrightarrow>
            nat \<lfloor>real_of_int (int (length s) - 1) * real_of_int p / 100\<rfloor> < length s
          \<and> percentileInt64 s p
              = s ! nat \<lfloor>real_of_int (int (length s) - 1) * real_of_int p / 100\<rfloor>)"
proof (intro conjI impI)
  assume "p \<le> 0"
  have "s ! 0 = Min (set s)"
  proof (rule sym, rule Min_eqI)
    show "finite (set s)" by simp
    show "s ! 0 \<in> set s" using assms(1) by simp
    fix y assume "y \<in> set s"
    then obtain i where "i < length s" "s ! i = y" by (auto simp: in_set_conv_nth)
    with assms(2) show "s ! 0 \<le> y" by (auto simp: sorted_iff_nth_mono)
  qed
  with \<open>p \<le> 0\<close> assms(1) show "percentileInt64 s p = Min (set s)"
    by (simp add: percentileInt64_def)
next
  assume "100 \<le> p"
  have "s ! (length s - 1) = Max (set s)"
  proof (rule sym, rule Max_eqI)
    show "finite (set s)" by simp
    show "s ! (length s - 1) \<in> set s" using assms(1) by simp
    fix y assume "y \<in> set s"
    then obtain i where "i < length s" "s ! i = y" by (auto simp: in_set_conv_nth)
    with assms(2) show "y \<le> s ! (length s - 1)"
      by (auto simp: sorted_iff_nth_mono)
  qed
  with \<open>100 \<le> p\<close> assms(1) show "percentileInt64 s p = Max (set s)"
    by (simp add: percentileInt64_def)
next
  assume a: "0 < p \<and> p < 100"
  then have "0 < p" "p < 100" by simp_all
  from rank_in_range(2,3) [OF assms(1) this]
  show "nat \<lfloor>real_of_int (int (length s) - 1) * real_of_int p / 100\<rfloor> < length s"
    by linarith
next
  assume a: "0 < p \<and> p < 100"
  then have p: "0 < p" "p < 100" by simp_all
  define q where "q = real_of_int (int (length s) - 1) * real_of_int p / 100"
  from rank_in_range [OF assms(1) p]
  have r: "0 \<le> q" "0 \<le> \<lfloor>q\<rfloor>" "\<lfloor>q\<rfloor> < int (length s)"
    unfolding q_def by blast+
  have g: "goInt q = \<lfloor>q\<rfloor>" using r(1) by (rule goInt_nonneg)
  have "percentileInt64 s p = s ! nat (goInt q)"
    using p assms(1) r(2,3) unfolding percentileInt64_def Let_def q_def [symmetric] g
    by (simp del: of_int_diff of_int_of_nat_eq)
  then have "percentileInt64 s p = s ! nat \<lfloor>q\<rfloor>"
    by (simp only: g)
  then show "percentileInt64 s p
      = s ! nat \<lfloor>real_of_int (int (length s) - 1) * real_of_int p / 100\<rfloor>"
    unfolding q_def .
qed

theorem percentileInt64_nearest_rank_witness:
  "percentileInt64 [1, 5, 9, 20] 0 = 1 \<and> percentileInt64 [1, 5, 9, 20] 100 = 20
   \<and> percentileInt64 [1, 5, 9, 20] 95 = 9"
proof -
  have s: "[1, 5, 9, 20] \<noteq> ([] :: int list)" "sorted [1, 5, 9, 20 :: int]" by simp_all
  have f: "\<lfloor>(57::real) / 20\<rfloor> = 2" by (simp add: floor_eq_iff)
  from percentileInt64_nearest_rank [OF s, of 0]
    percentileInt64_nearest_rank [OF s, of 100]
    percentileInt64_nearest_rank [OF s, of 95] f
  show ?thesis by simp
qed

text \<open>
  Claim C9, as the code has it. The limit used by the listing lies in \<open>[1, 500]\<close> and the
  page size used by the full scan in \<open>[1, 2000]\<close>; a request inside the range is used as
  it is, a request \<open>\<le> 0\<close> is replaced by the default (100, 500), and a request above the
  maximum is replaced by the maximum (500, 2000), not by the default.
\<close>

theorem scan_limits_clamped:
  "1 \<le> listLimit l \<and> listLimit l \<le> 500
   \<and> (l \<le> 0 \<longrightarrow> listLimit l = 100)
   \<and> (1 \<le> l \<and> l \<le> 500 \<longrightarrow> listLimit l = l)
   \<and> (500 < l \<longrightarrow> listLimit l = 500)
   \<and> 1 \<le> statsPageSize n \<and> statsPageSize n \<le> 2000
   \<and> (n \<le> 0 \<longrightarrow> statsPageSize n = 500)
   \<and> (1 \<le> n \<and> n \<le> 2000 \<longrightarrow> statsPageSize n = n)
   \<and> (2000 < n \<longrightarrow> statsPageSize n = 2000)"
  by (simp add: listLimit_def statsPageSize_def)

theorem scan_limits_clamped_witness:
  "listLimit 0 = 100 \<and> listLimit 37 = 37 \<and> listLimit 501 = 500
   \<and> statsPageSize (- 4) = 500 \<and> statsPageSize 2000 = 2000 \<and> statsPageSize 2001 = 2000"
  using scan_limits_clamped [of 0 "- 4"] scan_limits_clamped [of 37 2000]
    scan_limits_clamped [of 501 2001]
  by simp

text \<open>
  The claim as the spec words it fails above the maximum: a listing request of 501 is out
  of range, and the limit used is 500, not the default 100; a page size of 2001 gives 2000,
  not the default 500.
\<close>

theorem scan_limits_default_counterexample:
  "(501::int) > 500 \<and> listLimit 501 \<noteq> 100 \<and> (2001::int) > 2000 \<and> statsPageSize 2001 \<noteq> 500"
  by (simp add: listLimit_def statsPageSize_def)




end
